theory Spec2Isabelle
  imports Complex_Main "HOL-Library.Sublist"
begin

section \<open>Python strings\<close>

text \<open>
  A Python \<open>str\<close> is modelled as a \<open>string\<close>, one \<open>char\<close> per code point, for the
  code points below 256. \<open>str.lower\<close> maps \<open>A\<close>..\<open>Z\<close> and the Latin-1 capitals
  (192..222 except the multiplication sign 215) to the letter 32 places further on and
  leaves every other code point of that range alone.
\<close>

definition char_lower :: "char \<Rightarrow> char" where
  "char_lower c =
     (let n = (of_char c :: nat)
      in if (65 \<le> n \<and> n \<le> 90) \<or> (192 \<le> n \<and> n \<le> 222 \<and> n \<noteq> 215)
         then char_of (n + 32) else c)"

definition lower :: "string \<Rightarrow> string" where
  "lower s = map char_lower s"

text \<open>
  \<open>k in s\<close> on strings: \<open>k\<close> occurs in \<open>s\<close> as a contiguous run of characters,
  starting at any position.
\<close>

fun str_contains :: "string \<Rightarrow> string \<Rightarrow> bool" where
  "str_contains k [] = (k = [])"
| "str_contains k (c # cs) = (prefix k (c # cs) \<or> str_contains k cs)"

text \<open>
  \<open>str.strip()\<close> removes leading and trailing white space: below 256 these are the
  code points 9..13, 28..32, 133 and 160.
\<close>

definition is_space :: "char \<Rightarrow> bool" where
  "is_space c =
     (let n = (of_char c :: nat)
      in (9 \<le> n \<and> n \<le> 13) \<or> (28 \<le> n \<and> n \<le> 32) \<or> n = 133 \<or> n = 160)"

definition strip :: "string \<Rightarrow> string" where
  "strip s = rev (dropWhile is_space (rev (dropWhile is_space s)))"

text \<open>
  \<open>s.replace(old, new)\<close>: the occurrences of \<open>old\<close> are replaced from left to right
  without overlap; an empty \<open>old\<close> matches before every character and at the end.
\<close>

function replace :: "string \<Rightarrow> string \<Rightarrow> string \<Rightarrow> string" where
  "replace old new [] = (if old = [] then new else [])"
| "replace old new (c # cs) =
     (if old = [] then new @ c # replace old new cs
      else if prefix old (c # cs) then new @ replace old new (drop (length old) (c # cs))
      else c # replace old new cs)"
  by pat_completeness auto
termination
  by (relation "measure (\<lambda>(old, new, s). length s)") auto

text \<open>The decimal numeral of a natural number, as an f-string prints it.\<close>

fun str_nat :: "nat \<Rightarrow> string" where
  "str_nat n =
     (if n < 10 then [char_of (48 + n)]
      else str_nat (n div 10) @ [char_of (48 + n mod 10)])"

declare str_nat.simps [simp del]

section \<open>Exceptions\<close>

text \<open>
  The exceptions of the program are values: the \<open>ValueError\<close>s it raises itself and
  any other subclass of \<open>Exception\<close> coming out of a library call, each with its message.
  \<open>str_of\<close> is \<open>str(e)\<close>.
\<close>

datatype error = ValueError string | OtherException string

fun str_of :: "error \<Rightarrow> string" where
  "str_of (ValueError m) = m"
| "str_of (OtherException m) = m"

section \<open>Data model\<close>

text \<open>A LlamaIndex \<open>Document\<close>: its text and its metadata dictionary.\<close>

record document =
  doc_text :: string
  metadata :: "(string \<times> string) list"

text \<open>\<open>d.get(key, default)\<close> on a dictionary.\<close>

definition dict_get :: "(string \<times> string) list \<Rightarrow> string \<Rightarrow> string \<Rightarrow> string" where
  "dict_get d key dflt = (case map_of d key of None \<Rightarrow> dflt | Some v \<Rightarrow> v)"

text \<open>
  A vector index, as far as the program looks into it: the document store, a dictionary
  from document ids to documents, kept in insertion order.
\<close>

record vector_index =
  docstore :: "(string \<times> document) list"

text \<open>
  What \<open>./storage\<close> holds when it exists: a snapshot that \<open>load_index_from_storage\<close>
  reads back, or something that makes loading raise.
\<close>

datatype storage = Corrupt | Persisted vector_index

text \<open>
  One name listed by \<open>os.listdir("documents")\<close>: whether \<open>os.path.isfile\<close> holds of
  its path, and what \<open>os.path.getmtime\<close> returns for it. Modification times are
  finite floats, compared as reals.
\<close>

record dir_entry =
  filename :: string
  isfile :: bool
  mtime :: real

text \<open>
  The files the program reads and writes: the cache marker \<open>./index_cache.pkl\<close> (its
  modification time when it exists), the directory \<open>./storage\<close>, the directory
  \<open>documents\<close> (its listing when it exists; the path is never a plain file, and
  no file changes while an operation runs), and what the three readers
  (\<open>PyPDF2\<close>, \<open>docx2txt\<close>, \<open>open(...).read()\<close>) give for a path: a text, the texts
  of the pages for a PDF, or an exception.
\<close>

record world =
  index_cache_file :: "real option"
  storage_dir :: "storage option"
  documents_dir :: "dir_entry list option"
  pdf_pages :: "string \<Rightarrow> error + string list"
  docx_text :: "string \<Rightarrow> error + string"
  txt_contents :: "string \<Rightarrow> error + string"

text \<open>One result of the web search: the dictionary \<open>extract_text_from_url\<close> returns.\<close>

record search_result =
  url :: string
  title :: string
  content :: string
  source :: string

text \<open>
  The collaborators outside the repository's own logic, each a function that returns a
  value or raises: building an index from documents (embedding calls), persisting it,
  writing the cache marker (the result is the marker's new modification time),
  retrieving the texts of the top \<open>k\<close> nodes, filling the prompt template and the
  completion. For the web: \<open>google_search\<close> is the generator \<open>search(query,
  num_results=n, stop=n, pause=2)\<close>, the list of what the iteration yields, an \<open>Inl\<close>
  being an exception raised at that point of the iteration; \<open>urlparse_netloc\<close> is
  \<open>urlparse(url).netloc\<close>; \<open>fetch_page\<close> is the download and parsing of a page, up
  to the title and the cleaned content text.
\<close>

record services =
  from_documents :: "document list \<Rightarrow> error + vector_index"
  persist :: "vector_index \<Rightarrow> error option"
  write_cache_file :: "error + real"
  retrieve :: "vector_index option \<Rightarrow> nat \<Rightarrow> string \<Rightarrow> error + string list"
  google_search :: "string \<Rightarrow> nat \<Rightarrow> (error + string) list"
  urlparse_netloc :: "string \<Rightarrow> error + string"
  fetch_page :: "string \<Rightarrow> error + (string \<times> string)"
  template_format :: "string \<Rightarrow> string \<Rightarrow> string \<Rightarrow> error + string"
  llm_complete :: "string \<Rightarrow> error + string"

text \<open>The query engine records the index and \<open>similarity_top_k\<close> it was set up with.\<close>

record query_engine =
  engine_index :: vector_index
  similarity_top_k :: nat

text \<open>The fields of \<open>LegalChatbot\<close> that change after construction.\<close>

record chatbot =
  index :: "vector_index option"
  query_engine :: "query_engine option"

section \<open>\<open>DocumentProcessor\<close>\<close>

definition DocumentProcessor_init :: "world \<Rightarrow> world" where
  "DocumentProcessor_init w =
     (if documents_dir w = None then w\<lparr>documents_dir := Some []\<rparr> else w)"

definition extract_text_from_pdf :: "world \<Rightarrow> string \<Rightarrow> string" where
  "extract_text_from_pdf w pdf_path =
     (case pdf_pages w pdf_path of
        Inl e \<Rightarrow> []
      | Inr pages \<Rightarrow> concat (map (\<lambda>page. page @ ''\<newline>'') pages))"

definition extract_text_from_docx :: "world \<Rightarrow> string \<Rightarrow> string" where
  "extract_text_from_docx w docx_path =
     (case docx_text w docx_path of Inl e \<Rightarrow> [] | Inr t \<Rightarrow> t)"

definition extract_text_from_txt :: "world \<Rightarrow> string \<Rightarrow> string" where
  "extract_text_from_txt w txt_path =
     (case txt_contents w txt_path of Inl e \<Rightarrow> [] | Inr t \<Rightarrow> t)"

text \<open>
  Paths use \<open>/\<close> as separator. \<open>os.path.basename\<close> is the part after the last
  separator; \<open>os.path.splitext(p)[1]\<close> is the part of the base name from its last dot
  on, when a character other than a dot stands before that dot, and empty otherwise.
\<close>

definition path_join :: "string \<Rightarrow> string \<Rightarrow> string" where
  "path_join dir name = dir @ ''/'' @ name"

definition basename :: "string \<Rightarrow> string" where
  "basename path = rev (takeWhile (\<lambda>c. c \<noteq> CHR ''/'') (rev path))"

definition splitext_ext :: "string \<Rightarrow> string" where
  "splitext_ext path =
     (let stem = dropWhile (\<lambda>c. c = CHR ''.'') (basename path)
      in if CHR ''.'' \<in> set stem
         then CHR ''.'' # rev (takeWhile (\<lambda>c. c \<noteq> CHR ''.'') (rev stem))
         else [])"

text \<open>
  \<open>process_document\<close> returns \<open>None\<close> for an unsupported extension and for a text
  that is empty once stripped.
\<close>

definition process_document :: "world \<Rightarrow> string \<Rightarrow> document option" where
  "process_document w file_path =
     (let file_extension = lower (splitext_ext file_path);
          file_name = basename file_path;
          extracted =
            (if file_extension = ''.pdf'' then Some (extract_text_from_pdf w file_path)
             else if file_extension = ''.docx'' then Some (extract_text_from_docx w file_path)
             else if file_extension = ''.txt'' then Some (extract_text_from_txt w file_path)
             else None)
      in case extracted of
           None \<Rightarrow> None
         | Some text \<Rightarrow>
             if strip text \<noteq> []
             then Some \<lparr>doc_text = text,
                        metadata = [(''filename'', file_name), (''file_path'', file_path),
                                    (''document_type'', ''legal_document'')]\<rparr>
             else None)"

text \<open>The loop of \<open>process_all_documents\<close> over the listing of the folder.\<close>

fun process_entries :: "world \<Rightarrow> string \<Rightarrow> dir_entry list \<Rightarrow> document list" where
  "process_entries w folder [] = []"
| "process_entries w folder (e # es) =
     (if isfile e
      then (case process_document w (path_join folder (filename e)) of
              Some doc \<Rightarrow> doc # process_entries w folder es
            | None \<Rightarrow> process_entries w folder es)
      else process_entries w folder es)"

definition process_all_documents :: "world \<Rightarrow> document list" where
  "process_all_documents w =
     (case documents_dir w of
        None \<Rightarrow> []
      | Some entries \<Rightarrow> process_entries w ''documents'' entries)"

section \<open>\<open>WebScraper\<close>\<close>

definition trusted_sources :: "string list" where
  "trusted_sources =
     [''indiankanoon.org'', ''main.sci.gov.in'', ''livelaw.in'', ''barandbench.com'',
      ''theleaflet.in'', ''scobserver.in'', ''legally.co.in'', ''taxguru.in'']"

definition is_trusted_source :: "services \<Rightarrow> string \<Rightarrow> bool" where
  "is_trusted_source sv u =
     (case urlparse_netloc sv u of
        Inl e \<Rightarrow> False
      | Inr netloc \<Rightarrow>
          (let domain = lower netloc
           in list_ex (\<lambda>source. str_contains source domain) trusted_sources))"

text \<open>
  The first loop of \<open>google_search_legal\<close>: trusted URLs are collected until there
  are \<open>num_results\<close> of them; an exception of the iteration leaves the loop.
\<close>

fun collect_trusted ::
    "services \<Rightarrow> nat \<Rightarrow> string list \<Rightarrow> (error + string) list \<Rightarrow> error + string list" where
  "collect_trusted sv num_results urls [] = Inr urls"
| "collect_trusted sv num_results urls (Inl e # rest) = Inl e"
| "collect_trusted sv num_results urls (Inr u # rest) =
     (if is_trusted_source sv u
      then (if length (urls @ [u]) \<ge> num_results then Inr (urls @ [u])
            else collect_trusted sv num_results (urls @ [u]) rest)
      else collect_trusted sv num_results urls rest)"

text \<open>The second loop: new URLs are added while fewer than \<open>num_results\<close> are held.\<close>

fun collect_broader ::
    "nat \<Rightarrow> string list \<Rightarrow> (error + string) list \<Rightarrow> error + string list" where
  "collect_broader num_results urls [] = Inr urls"
| "collect_broader num_results urls (Inl e # rest) = Inl e"
| "collect_broader num_results urls (Inr u # rest) =
     (if u \<notin> set urls \<and> length urls < num_results
      then collect_broader num_results (urls @ [u]) rest
      else collect_broader num_results urls rest)"

definition enhanced_query :: "string \<Rightarrow> string" where
  "enhanced_query query =
     query @ '' India law judgment case site:indiankanoon.org OR site:livelaw.in OR site:barandbench.com''"

definition broader_query :: "string \<Rightarrow> string" where
  "broader_query query = query @ '' Supreme Court India High Court judgment 2024 2023''"

text \<open>\<open>google_search_legal\<close> catches every exception and then returns no URL.\<close>

definition google_search_legal :: "services \<Rightarrow> string \<Rightarrow> nat \<Rightarrow> string list" where
  "google_search_legal sv query num_results =
     (case collect_trusted sv num_results []
             (google_search sv (enhanced_query query) (num_results * 2)) of
        Inl e \<Rightarrow> []
      | Inr urls \<Rightarrow>
          if length urls < 3
          then (case collect_broader num_results urls
                       (google_search sv (broader_query query) 10) of
                  Inl e \<Rightarrow> []
                | Inr urls' \<Rightarrow> take num_results urls')
          else take num_results urls)"

text \<open>
  \<open>extract_text_from_url\<close>: an exception in the \<open>try\<close> block leads to the handler,
  which returns a placeholder entry; the handler itself calls \<open>urlparse\<close> for a
  non-empty URL, and an exception there leaves the function.
\<close>

definition error_page :: "services \<Rightarrow> string \<Rightarrow> error + search_result" where
  "error_page sv u =
     (if u \<noteq> []
      then (case urlparse_netloc sv u of
              Inl e \<Rightarrow> Inl e
            | Inr netloc \<Rightarrow>
                Inr \<lparr>url = u, title = ''Error loading page'',
                     content = ''Could not extract content from this page'',
                     source = netloc\<rparr>)
      else Inr \<lparr>url = u, title = ''Error loading page'',
                content = ''Could not extract content from this page'',
                source = ''unknown''\<rparr>)"

definition extract_text_from_url :: "services \<Rightarrow> string \<Rightarrow> error + search_result" where
  "extract_text_from_url sv u =
     (case fetch_page sv u of
        Inl e \<Rightarrow> error_page sv u
      | Inr (title_text, content_text) \<Rightarrow>
          (case urlparse_netloc sv u of
             Inl e \<Rightarrow> error_page sv u
           | Inr netloc \<Rightarrow>
               Inr \<lparr>url = u, title = title_text, content = take 3000 content_text,
                    source = netloc\<rparr>))"

text \<open>The loop of \<open>search_recent_cases\<close>: entries with more than 100 characters are kept.\<close>

fun extract_results :: "services \<Rightarrow> string list \<Rightarrow> error + search_result list" where
  "extract_results sv [] = Inr []"
| "extract_results sv (u # us) =
     (case extract_text_from_url sv u of
        Inl e \<Rightarrow> Inl e
      | Inr content_data \<Rightarrow>
          (case extract_results sv us of
             Inl e \<Rightarrow> Inl e
           | Inr results \<Rightarrow>
               Inr (if content content_data \<noteq> [] \<and> length (content content_data) > 100
                    then content_data # results else results)))"

definition search_recent_cases :: "services \<Rightarrow> string \<Rightarrow> error + search_result list" where
  "search_recent_cases sv query =
     (let urls = google_search_legal sv query 5
      in if urls = [] then Inr [] else extract_results sv urls)"

definition detect_query_type :: "string \<Rightarrow> string" where
  "detect_query_type query =
     (let query_lower = lower query;
          recent_keywords =
            [''recent'', ''latest'', ''new'', ''2024'', ''2023'', ''current'', ''today''];
          case_keywords = [''case'', ''judgment'', ''ruling'', ''decision'', ''precedent''];
          definition_keywords =
            [''what is'', ''define'', ''definition'', ''meaning'', ''explain'']
      in if list_ex (\<lambda>keyword. str_contains keyword query_lower) recent_keywords
         then ''recent''
         else if list_ex (\<lambda>keyword. str_contains keyword query_lower) case_keywords
         then ''case_law''
         else if list_ex (\<lambda>keyword. str_contains keyword query_lower) definition_keywords
         then ''definition''
         else ''general'')"

text \<open>The query \<open>comprehensive_legal_search\<close> searches with, chosen by the query type.\<close>

definition typed_search_query :: "string \<Rightarrow> string" where
  "typed_search_query query =
     (let query_type = detect_query_type query
      in if query_type = ''recent'' then query @ '' 2024 2023 latest judgment''
         else if query_type = ''case_law'' then query @ '' Supreme Court High Court precedent''
         else if query_type = ''definition''
         then query @ '' Indian law definition legal meaning''
         else query)"

text \<open>
  \<open>comprehensive_legal_search\<close>, as far as its caller reads the result: the list
  under the key \<open>results\<close>.
\<close>

definition comprehensive_legal_search ::
    "services \<Rightarrow> string \<Rightarrow> error + search_result list" where
  "comprehensive_legal_search sv query = search_recent_cases sv (typed_search_query query)"

section \<open>\<open>LegalChatbot\<close>: index life cycle\<close>

text \<open>
  The constructor, as far as the later operations see it: the API key is the secret
  when that is a non-empty string and the environment variable otherwise; without a key
  the constructor raises. The model clients are taken to be constructed without an
  exception. Constructing the \<open>DocumentProcessor\<close> creates \<open>documents\<close> when it is
  missing.
\<close>

definition LegalChatbot_init ::
    "string option \<Rightarrow> string option \<Rightarrow> world \<Rightarrow> error + (world \<times> chatbot)" where
  "LegalChatbot_init secret env_var w =
     (let mistral_api_key =
            (if secret \<noteq> None \<and> secret \<noteq> Some [] then secret else env_var)
      in if mistral_api_key = None \<or> mistral_api_key = Some []
         then Inl (ValueError ''MISTRAL_API_KEY not found in environment variables'')
         else Inr (DocumentProcessor_init w, \<lparr>index = None, query_engine = None\<rparr>))"

text \<open>The loop of \<open>_documents_changed\<close>: it returns at the first newer regular file.\<close>

fun newer_than :: "real \<Rightarrow> dir_entry list \<Rightarrow> bool" where
  "newer_than cache_time [] = False"
| "newer_than cache_time (e # es) =
     (if isfile e \<and> mtime e > cache_time then True else newer_than cache_time es)"

definition documents_changed :: "world \<Rightarrow> bool" where
  "documents_changed w =
     (case index_cache_file w of
        None \<Rightarrow> True
      | Some cache_time \<Rightarrow>
          (case documents_dir w of
             None \<Rightarrow> True
           | Some entries \<Rightarrow> newer_than cache_time entries))"

text \<open>
  \<open>load_cached_index\<close>: the flag it returns and the chatbot afterwards. An exception
  while loading is caught and reported as \<open>False\<close>.
\<close>

definition load_cached_index :: "world \<Rightarrow> chatbot \<Rightarrow> bool \<times> chatbot" where
  "load_cached_index w self =
     (case storage_dir w of
        None \<Rightarrow> (False, self)
      | Some Corrupt \<Rightarrow> (False, self)
      | Some (Persisted idx) \<Rightarrow> (True, self\<lparr>index := Some idx\<rparr>))"

text \<open>
  \<open>save_index_cache\<close> never raises. It creates \<open>./storage\<close> when missing, persists
  the index and then writes the marker; an exception at any step ends it there. A
  failed \<open>persist\<close> is taken to leave a directory that does not load.
\<close>

definition save_index_cache :: "services \<Rightarrow> world \<Rightarrow> chatbot \<Rightarrow> world" where
  "save_index_cache sv w self =
     (let w1 = (if storage_dir w = None then w\<lparr>storage_dir := Some Corrupt\<rparr> else w)
      in case index self of
           None \<Rightarrow> w1
         | Some idx \<Rightarrow>
             (case persist sv idx of
                Some e \<Rightarrow> w1\<lparr>storage_dir := Some Corrupt\<rparr>
              | None \<Rightarrow>
                  (let w2 = w1\<lparr>storage_dir := Some (Persisted idx)\<rparr>
                   in case write_cache_file sv of
                        Inl e \<Rightarrow> w2
                      | Inr t \<Rightarrow> w2\<lparr>index_cache_file := Some t\<rparr>)))"

definition no_documents_message :: string where
  "no_documents_message =
     ''No documents found to process. Please add legal documents to the 'documents' folder.''"

definition build_index ::
    "services \<Rightarrow> bool \<Rightarrow> world \<Rightarrow> chatbot \<Rightarrow> error + (world \<times> chatbot)" where
  "build_index sv force_rebuild w self =
     (let (loaded, self1) =
            (if \<not> force_rebuild \<and> \<not> documents_changed w
             then load_cached_index w self else (False, self))
      in if loaded then Inr (w, self1)
         else
           (let documents = process_all_documents w
            in if documents = [] then Inl (ValueError no_documents_message)
               else
                 (case from_documents sv documents of
                    Inl e \<Rightarrow> Inl e
                  | Inr idx \<Rightarrow>
                      (let self2 = self1\<lparr>index := Some idx\<rparr>
                       in Inr (save_index_cache sv w self2, self2)))))"

definition setup_query_engine :: "nat \<Rightarrow> chatbot \<Rightarrow> error + chatbot" where
  "setup_query_engine k self =
     (case index self of
        None \<Rightarrow> Inl (ValueError ''Index not built. Call build_index() first.'')
      | Some idx \<Rightarrow>
          Inr (self\<lparr>query_engine := Some \<lparr>engine_index = idx, similarity_top_k = k\<rparr>\<rparr>))"

definition initialize ::
    "services \<Rightarrow> bool \<Rightarrow> world \<Rightarrow> chatbot \<Rightarrow> error + (world \<times> chatbot)" where
  "initialize sv force_rebuild w self =
     (case build_index sv force_rebuild w self of
        Inl e \<Rightarrow> Inl e
      | Inr (w', self') \<Rightarrow>
          (case setup_query_engine 3 self' of
             Inl e \<Rightarrow> Inl e
           | Inr self'' \<Rightarrow> Inr (w', self'')))"

definition rebuild_index :: "services \<Rightarrow> world \<Rightarrow> chatbot \<Rightarrow> error + (world \<times> chatbot)" where
  "rebuild_index sv w self = initialize sv True w self"

text \<open>
  \<open>get_document_info\<close> returns a string or a list of dictionaries; the two shapes are
  the two constructors of the result.
\<close>

record doc_info =
  info_filename :: string
  info_document_type :: string
  info_text_length :: nat

datatype document_info = InfoString string | InfoList "doc_info list"

definition get_document_info :: "chatbot \<Rightarrow> document_info" where
  "get_document_info self =
     (case index self of
        None \<Rightarrow> InfoString ''Index not built yet.''
      | Some idx \<Rightarrow>
          InfoList
            (map (\<lambda>(doc_id, doc).
                    \<lparr>info_filename = dict_get (metadata doc) ''filename'' ''Unknown'',
                     info_document_type = dict_get (metadata doc) ''document_type'' ''Unknown'',
                     info_text_length = length (doc_text doc)\<rparr>)
                 (docstore idx)))"

section \<open>\<open>LegalChatbot\<close>: the query path\<close>

definition web_search_keywords :: "string list" where
  "web_search_keywords =
     [''recent'', ''latest'', ''new'', ''2024'', ''2023'', ''current'', ''today'',
      ''recent case'', ''recent judgment'', ''latest ruling'', ''new law'',
      ''current status'', ''updated'', ''now'', ''present'']"

definition should_search_web :: "string \<Rightarrow> bool" where
  "should_search_web question =
     (let question_lower = lower question
      in list_ex (\<lambda>keyword. str_contains keyword question_lower) web_search_keywords)"

text \<open>The two lines one search result adds to the web context.\<close>

definition format_result :: "nat \<Rightarrow> search_result \<Rightarrow> string" where
  "format_result i result =
     str_nat i @ ''. '' @ title result @ '' (Source: '' @ source result @ '')\<newline>''
     @ ''   '' @ take 400 (content result)
     @ (if length (content result) > 400 then ''...'' else '''') @ ''\<newline>\<newline>''"

fun append_results :: "string \<Rightarrow> (nat \<times> search_result) list \<Rightarrow> string" where
  "append_results web_context [] = web_context"
| "append_results web_context ((i, result) # rest) =
     append_results (web_context @ format_result i result) rest"

definition web_context_header :: string where
  "web_context_header = ''Recent Legal Information from Web Sources:\<newline>\<newline>''"

definition get_web_context :: "services \<Rightarrow> string \<Rightarrow> string" where
  "get_web_context sv question =
     (case comprehensive_legal_search sv question of
        Inl e \<Rightarrow> ''Error retrieving web information: '' @ str_of e
      | Inr results \<Rightarrow>
          if results = [] then ''No recent web information found for this query.''
          else append_results web_context_header (enumerate 1 (take 2 results)))"

text \<open>The text of \<open>legal_prompt_template\<close> with its three slots filled.\<close>

definition legal_prompt_template :: "string \<Rightarrow> string \<Rightarrow> string \<Rightarrow> string" where
  "legal_prompt_template context_str web_context query_str =
     ''You are an expert Indian legal assistant. Use both the provided context from Indian legal documents and recent web information to answer questions accurately and comprehensively.\<newline>\<newline>''
     @ ''Context from Legal Documents:\<newline>''
     @ ''---------------------\<newline>''
     @ context_str @ ''\<newline>''
     @ ''---------------------\<newline>\<newline>''
     @ ''Recent Web Information:\<newline>''
     @ ''---------------------\<newline>''
     @ web_context @ ''\<newline>''
     @ ''---------------------\<newline>\<newline>''
     @ ''Instructions:\<newline>''
     @ ''1. Provide accurate legal information based on Indian law and recent developments\<newline>''
     @ ''2. Cite specific sections, articles, or acts when possible\<newline>''
     @ ''3. Include recent case law and judgments when relevant\<newline>''
     @ ''4. If information conflicts, prioritize statutory law but mention recent judicial interpretations\<newline>''
     @ ''5. Always remind users to consult with a qualified lawyer for legal advice\<newline>''
     @ ''6. Be precise and professional in your responses\<newline>''
     @ ''7. Clearly distinguish between established law and recent developments\<newline>''
     @ ''8. Format your response in plain text without markdown formatting\<newline>\<newline>''
     @ ''Query: '' @ query_str @ ''\<newline>''
     @ ''Answer: ''"

text \<open>\<open>"\n".join(texts)\<close>.\<close>

fun join_lines :: "string list \<Rightarrow> string" where
  "join_lines [] = []"
| "join_lines [t] = t"
| "join_lines (t # ts) = t @ ''\<newline>'' @ join_lines ts"

definition strip_markdown :: "string \<Rightarrow> string" where
  "strip_markdown response_text =
     replace ''#'' '''' (replace ''##'' '''' (replace ''###'' ''''
       (replace ''*'' '''' (replace ''**'' '''' response_text))))"

text \<open>The body of the \<open>try\<close> block of \<open>query\<close>: an \<open>Inl\<close> is an exception leaving it.\<close>

definition query_try :: "services \<Rightarrow> chatbot \<Rightarrow> string \<Rightarrow> error + string" where
  "query_try sv self question =
     (case retrieve sv (index self) 3 question of
        Inl e \<Rightarrow> Inl e
      | Inr texts \<Rightarrow>
          (let doc_context = join_lines texts;
               web_context =
                 (if should_search_web question then get_web_context sv question
                  else ''No web search performed - using statutory documents only.'')
           in case template_format sv doc_context web_context question of
                Inl e \<Rightarrow> Inl e
              | Inr enhanced_prompt \<Rightarrow>
                  (case llm_complete sv enhanced_prompt of
                     Inl e \<Rightarrow> Inl e
                   | Inr response \<Rightarrow> Inr (strip_markdown response))))"

definition query :: "services \<Rightarrow> chatbot \<Rightarrow> string \<Rightarrow> error + string" where
  "query sv self question =
     (case query_engine self of
        None \<Rightarrow> Inl (ValueError ''Query engine not setup. Call setup_query_engine() first.'')
      | Some engine \<Rightarrow>
          (case query_try sv self question of
             Inl e \<Rightarrow> Inr (''Error processing query: '' @ str_of e)
           | Inr response_text \<Rightarrow> Inr response_text))"

section \<open>Example inputs\<close>

text \<open>
  A chatbot straight after construction; a world whose marker was written at time 10
  over two text files last modified at 5 and 7, with a storage directory that does not
  load; the index built from those two files; three search results of content lengths
  500, 300 and 200, from three pages of trusted sources that the search yields;
  collaborators that all succeed, and the same with a search that raises at once, as it
  does when the search engine refuses the request.
\<close>

definition fresh_chatbot :: chatbot where
  "fresh_chatbot = \<lparr>index = None, query_engine = None\<rparr>"

definition example_world :: world where
  "example_world =
     \<lparr>index_cache_file = Some 10,
      storage_dir = Some Corrupt,
      documents_dir =
        Some [\<lparr>filename = ''constitution.txt'', isfile = True, mtime = 5\<rparr>,
              \<lparr>filename = ''ipc.txt'', isfile = True, mtime = 7\<rparr>],
      pdf_pages = (\<lambda>p. Inl (OtherException ''not a PDF'')),
      docx_text = (\<lambda>p. Inl (OtherException ''not a DOCX'')),
      txt_contents =
        (\<lambda>p. if p = ''documents/constitution.txt'' then Inr ''Article 21 right to life''
             else if p = ''documents/ipc.txt'' then Inr ''Section 302''
             else Inl (OtherException ''no such file''))\<rparr>"

definition example_index :: vector_index where
  "example_index =
     \<lparr>docstore =
        [(''0'', \<lparr>doc_text = ''Article 21 right to life'',
                  metadata = [(''filename'', ''constitution.txt''),
                              (''file_path'', ''documents/constitution.txt''),
                              (''document_type'', ''legal_document'')]\<rparr>),
         (''1'', \<lparr>doc_text = ''Section 302'',
                  metadata = [(''filename'', ''ipc.txt''),
                              (''file_path'', ''documents/ipc.txt''),
                              (''document_type'', ''legal_document'')]\<rparr>)]\<rparr>"

definition example_results :: "search_result list" where
  "example_results =
     [\<lparr>url = ''https://livelaw.in/a'', title = ''Long'',
       content = replicate 500 (CHR ''a''), source = ''livelaw.in''\<rparr>,
      \<lparr>url = ''https://indiankanoon.org/b'', title = ''Short'',
       content = replicate 300 (CHR ''b''), source = ''indiankanoon.org''\<rparr>,
      \<lparr>url = ''https://taxguru.in/c'', title = ''Third'',
       content = replicate 200 (CHR ''c''), source = ''taxguru.in''\<rparr>]"

definition example_services :: services where
  "example_services =
     \<lparr>from_documents =
        (\<lambda>docs. Inr \<lparr>docstore = zip (map str_nat [0..<length docs]) docs\<rparr>),
      persist = (\<lambda>idx. None),
      write_cache_file = Inr 100,
      retrieve = (\<lambda>idx k q. Inr [''Article 21 right to life'']),
      google_search =
        (\<lambda>q n. [Inr ''https://livelaw.in/a'', Inr ''https://indiankanoon.org/b'',
                Inr ''https://taxguru.in/c'']),
      urlparse_netloc =
        (\<lambda>u. if u = ''https://livelaw.in/a'' then Inr ''livelaw.in''
             else if u = ''https://indiankanoon.org/b'' then Inr ''indiankanoon.org''
             else Inr ''taxguru.in''),
      fetch_page =
        (\<lambda>u. if u = ''https://livelaw.in/a'' then Inr (''Long'', replicate 500 (CHR ''a''))
             else if u = ''https://indiankanoon.org/b''
             then Inr (''Short'', replicate 300 (CHR ''b''))
             else Inr (''Third'', replicate 200 (CHR ''c''))),
      template_format = (\<lambda>c w q. Inr (legal_prompt_template c w q)),
      llm_complete = (\<lambda>p. Inr ''**Consult** a qualified lawyer.'')\<rparr>"


definition ready_chatbot :: chatbot where
  "ready_chatbot =
     \<lparr>index = Some example_index,
      query_engine = Some \<lparr>engine_index = example_index, similarity_top_k = 3\<rparr>\<rparr>"

text \<open>
  Variations of the example world: \<open>ipc.txt\<close> modified at 11, after the marker;
  \<open>ipc.txt\<close> removed; the directory \<open>documents\<close> removed. Collaborators whose
  search yields a URL that \<open>urlparse\<close> rejects and that cannot be downloaded;
  collaborators whose search is refused and whose completion raises as well.
\<close>

definition touched_world :: world where
  "touched_world =
     example_world\<lparr>documents_dir :=
       Some [\<lparr>filename = ''constitution.txt'', isfile = True, mtime = 5\<rparr>,
             \<lparr>filename = ''ipc.txt'', isfile = True, mtime = 11\<rparr>]\<rparr>"

definition removed_world :: world where
  "removed_world =
     example_world\<lparr>documents_dir :=
       Some [\<lparr>filename = ''constitution.txt'', isfile = True, mtime = 5\<rparr>]\<rparr>"

definition missing_world :: world where
  "missing_world = example_world\<lparr>documents_dir := None\<rparr>"

definition malformed_url_services :: services where
  "malformed_url_services =
     example_services
       \<lparr>google_search := (\<lambda>q n. [Inr ''http://[bad'']),
        urlparse_netloc := (\<lambda>u. Inl (ValueError ''Invalid IPv6 URL'')),
        fetch_page := (\<lambda>u. Inl (OtherException ''Invalid URL''))\<rparr>"


section \<open>Web routing\<close>

lemma str_contains_sublist: "str_contains k s = sublist k s"
  by (induction s) (simp_all add: sublist_Cons_right)

lemma should_search_web_iff:
  "should_search_web q = (\<exists>k \<in> set web_search_keywords. sublist k (lower q))"
  by (simp add: should_search_web_def list_ex_iff str_contains_sublist)

text \<open>
  Claim C6. The routing decision is a function of the query text and of nothing else
  (\<open>should_search_web\<close> has no other argument and reads no state). A query whose
  lowercased text contains \<open>latest\<close> is routed to the web; a query whose lowercased text
  contains none of the keywords is not.
\<close>

theorem should_search_web_routing:
  "(sublist ''latest'' (lower q) \<longrightarrow> should_search_web q) \<and>
   ((\<forall>k \<in> set web_search_keywords. \<not> sublist k (lower q)) \<longrightarrow> \<not> should_search_web q)"
  by (auto simp: should_search_web_iff web_search_keywords_def)

theorem should_search_web_routing_witness:
  "should_search_web ''What is the LATEST ruling on bail?'' \<and>
   \<not> should_search_web ''What is Article 21?''"
proof -
  have yes: "sublist ''latest'' (lower ''What is the LATEST ruling on bail?'')"
    unfolding str_contains_sublist [symmetric] by code_simp
  have no: "\<forall>k \<in> set web_search_keywords. \<not> sublist k (lower ''What is Article 21?'')"
    unfolding str_contains_sublist [symmetric] by code_simp
  from yes no should_search_web_routing [of "''What is the LATEST ruling on bail?''"]
    should_search_web_routing [of "''What is Article 21?''"]
  show ?thesis by blast
qed

text \<open>
  Claim C9. Keywords are matched as raw substrings, without word boundaries: whenever
  the lowercased query has a keyword anywhere inside it, whatever stands before and
  after, also in the middle of a word, the query is routed to the web. So \<open>know\<close>
  (which contains \<open>now\<close>), \<open>newspaper\<close> and \<open>renewal\<close> (which contain \<open>new\<close>) all
  trigger a web search.
\<close>

theorem embedded_keyword_triggers_web_search:
  assumes "k \<in> set web_search_keywords"
    and "lower q = before @ k @ after"
  shows "should_search_web q"
  using assms unfolding should_search_web_iff sublist_def by blast

theorem embedded_keyword_triggers_web_search_witness:
  "should_search_web ''Do I know my rights?'' \<and>
   should_search_web ''Newspaper liability'' \<and>
   should_search_web ''Lease renewal terms''"
proof -
  have k1: "''now'' \<in> set web_search_keywords" and k2: "''new'' \<in> set web_search_keywords"
    by (simp_all add: web_search_keywords_def)
  have q1: "lower ''Do I know my rights?'' = ''do i k'' @ ''now'' @ '' my rights?''"
    by code_simp
  have q2: "lower ''Newspaper liability'' = '''' @ ''new'' @ ''spaper liability''"
    by code_simp
  have q3: "lower ''Lease renewal terms'' = ''lease re'' @ ''new'' @ ''al terms''"
    by code_simp
  show ?thesis
    using embedded_keyword_triggers_web_search [OF k1 q1]
      embedded_keyword_triggers_web_search [OF k2 q2]
      embedded_keyword_triggers_web_search [OF k2 q3]
    by simp
qed

section \<open>Staleness\<close>

lemma newer_than_iff: "newer_than T es = (\<exists>e \<in> set es. isfile e \<and> T < mtime e)"
  by (induction es) auto

lemma documents_changed_listing:
  assumes "index_cache_file w = Some T" and "documents_dir w = Some es"
  shows "documents_changed w = (\<exists>e \<in> set es. isfile e \<and> T < mtime e)"
  using assms by (simp add: documents_changed_def newer_than_iff)

text \<open>
  Claim C4. Staleness monotonicity: when the marker exists with modification time \<open>T\<close>
  and the directory \<open>documents\<close> exists, the check returns true if some regular file in
  it has a modification time strictly greater than \<open>T\<close>, and false if every regular
  file's modification time is at most \<open>T\<close>.
\<close>

theorem staleness_monotonicity:
  assumes "index_cache_file w = Some T" and "documents_dir w = Some es"
  shows "((\<exists>e \<in> set es. isfile e \<and> T < mtime e) \<longrightarrow> documents_changed w) \<and>
         ((\<forall>e \<in> set es. isfile e \<longrightarrow> mtime e \<le> T) \<longrightarrow> \<not> documents_changed w)"
  using documents_changed_listing [OF assms] by (auto simp: not_less [symmetric])

theorem staleness_monotonicity_witness:
  "documents_changed touched_world \<and> \<not> documents_changed example_world"
proof -
  let ?old = "[\<lparr>filename = ''constitution.txt'', isfile = True, mtime = 5\<rparr>,
               \<lparr>filename = ''ipc.txt'', isfile = True, mtime = 7\<rparr>]"
  let ?new = "[\<lparr>filename = ''constitution.txt'', isfile = True, mtime = 5\<rparr>,
               \<lparr>filename = ''ipc.txt'', isfile = True, mtime = 11\<rparr>]"
  have m: "index_cache_file example_world = Some 10"
    and m': "index_cache_file touched_world = Some 10"
    by (simp_all add: example_world_def touched_world_def)
  have d: "documents_dir example_world = Some ?old"
    and d': "documents_dir touched_world = Some ?new"
    by (simp_all add: example_world_def touched_world_def)
  have newer: "\<exists>e \<in> set ?new. isfile e \<and> 10 < mtime e"
    by simp
  have older: "\<forall>e \<in> set ?old. isfile e \<longrightarrow> mtime e \<le> 10"
    by simp
  from staleness_monotonicity [OF m' d'] staleness_monotonicity [OF m d] newer older
  show ?thesis by blast
qed

text \<open>
  Claim C2, amended. The check reads modification times and nothing else. Starting
  from a directory the check accepts (marker time \<open>T\<close>, no regular file newer than
  \<open>T\<close>): removing any files leaves the check false; adding an entry, or replacing
  an entry by a changed one, makes the check true exactly when the new entry is a
  regular file with a modification time strictly greater than \<open>T\<close>. So a removed file
  does not invalidate the index, and an added or changed file does only through its
  modification time.
\<close>

theorem staleness_reads_modification_times_only:
  assumes "index_cache_file w = Some T" and "documents_dir w = Some es"
    and "\<not> documents_changed w"
  shows "\<not> documents_changed (w\<lparr>documents_dir := Some (filter keep es)\<rparr>) \<and>
    documents_changed (w\<lparr>documents_dir := Some (es @ [e])\<rparr>) = (isfile e \<and> T < mtime e) \<and>
    (i < length es \<longrightarrow>
       documents_changed (w\<lparr>documents_dir := Some (es[i := e])\<rparr>) = (isfile e \<and> T < mtime e))"
proof -
  from assms have old: "\<forall>x \<in> set es. \<not> (isfile x \<and> T < mtime x)"
    by (simp add: documents_changed_listing)
  have removed: "\<not> documents_changed (w\<lparr>documents_dir := Some (filter keep es)\<rparr>)"
    using assms(1) old by (simp add: documents_changed_def newer_than_iff)
  have added: "documents_changed (w\<lparr>documents_dir := Some (es @ [e])\<rparr>)
      = (isfile e \<and> T < mtime e)"
    using assms(1) old by (auto simp: documents_changed_def newer_than_iff)
  have changed: "documents_changed (w\<lparr>documents_dir := Some (es[i := e])\<rparr>)
      = (isfile e \<and> T < mtime e)" if "i < length es"
  proof -
    have "set (es[i := e]) \<subseteq> insert e (set es)" and "e \<in> set (es[i := e])"
      using that by (simp_all add: set_update_subset_insert set_update_memI)
    with assms(1) old show ?thesis
      by (auto simp: documents_changed_def newer_than_iff)
  qed
  from removed added changed show ?thesis by blast
qed

theorem removed_file_is_not_detected:
  "documents_dir removed_world \<noteq> documents_dir example_world \<and>
   index_cache_file removed_world = Some 10 \<and>
   documents_dir removed_world
     = Some [\<lparr>filename = ''constitution.txt'', isfile = True, mtime = 5\<rparr>] \<and>
   \<not> documents_changed removed_world"
  by (simp add: removed_world_def example_world_def documents_changed_def)

theorem staleness_reads_modification_times_only_witness:
  "\<not> documents_changed
       (example_world\<lparr>documents_dir :=
          Some (filter (\<lambda>e. filename e \<noteq> ''ipc.txt'')
                  [\<lparr>filename = ''constitution.txt'', isfile = True, mtime = 5\<rparr>,
                   \<lparr>filename = ''ipc.txt'', isfile = True, mtime = 7\<rparr>])\<rparr>) \<and>
   \<not> documents_changed
       (example_world\<lparr>documents_dir :=
          Some ([\<lparr>filename = ''constitution.txt'', isfile = True, mtime = 5\<rparr>,
                 \<lparr>filename = ''ipc.txt'', isfile = True, mtime = 7\<rparr>]
                @ [\<lparr>filename = ''crpc.txt'', isfile = True, mtime = 3\<rparr>])\<rparr>) \<and>
   documents_changed
       (example_world\<lparr>documents_dir :=
          Some ([\<lparr>filename = ''constitution.txt'', isfile = True, mtime = 5\<rparr>,
                 \<lparr>filename = ''ipc.txt'', isfile = True, mtime = 7\<rparr>]
                [1 := \<lparr>filename = ''ipc.txt'', isfile = True, mtime = 12\<rparr>])\<rparr>)"
proof -
  let ?es = "[\<lparr>filename = ''constitution.txt'', isfile = True, mtime = 5\<rparr>,
              \<lparr>filename = ''ipc.txt'', isfile = True, mtime = 7\<rparr>]"
  have m: "index_cache_file example_world = Some 10"
    and d: "documents_dir example_world = Some ?es"
    by (simp_all add: example_world_def)
  have fresh: "\<not> documents_changed example_world"
    by (simp add: example_world_def documents_changed_def)
  have i: "(1::nat) < length ?es"
    by simp
  from staleness_reads_modification_times_only [OF m d fresh,
      of "\<lambda>e. filename e \<noteq> ''ipc.txt''"
         "\<lparr>filename = ''crpc.txt'', isfile = True, mtime = 3\<rparr>" 1]
    staleness_reads_modification_times_only [OF m d fresh,
      of "\<lambda>e. filename e \<noteq> ''ipc.txt''"
         "\<lparr>filename = ''ipc.txt'', isfile = True, mtime = 12\<rparr>" 1] i
  show ?thesis by simp
qed

section \<open>Building the index\<close>

lemma documents_changed_without_directory:
  "documents_dir w = None \<Longrightarrow> documents_changed w"
  by (simp add: documents_changed_def split: option.splits)

lemma forced_build_index:
  "build_index sv True w self =
     (if process_all_documents w = [] then Inl (ValueError no_documents_message)
      else case from_documents sv (process_all_documents w) of
             Inl e \<Rightarrow> Inl e
           | Inr idx \<Rightarrow>
               Inr (save_index_cache sv w (self\<lparr>index := Some idx\<rparr>),
                    self\<lparr>index := Some idx\<rparr>))"
  by (simp add: build_index_def Let_def split: sum.splits)

text \<open>
  Claim C3, amended. There is no error of its own for a missing directory. Over a
  world without \<open>documents\<close>, \<open>process_all_documents\<close> returns the empty list and
  \<open>build_index\<close>, forced or not, raises the \<open>ValueError\<close> with the message ``No
  documents found to process ...'', the same error a forced build over an existing,
  empty directory raises; constructing the \<open>DocumentProcessor\<close> creates the
  directory.
\<close>

theorem missing_directory_is_empty_corpus:
  assumes "documents_dir w = None"
  shows "process_all_documents w = [] \<and>
    build_index sv force_rebuild w self = Inl (ValueError no_documents_message) \<and>
    build_index sv True (w\<lparr>documents_dir := Some []\<rparr>) self
      = Inl (ValueError no_documents_message) \<and>
    documents_dir (DocumentProcessor_init w) = Some []"
proof -
  have empty: "process_all_documents w = []"
    using assms by (simp add: process_all_documents_def)
  have missing: "build_index sv force_rebuild w self = Inl (ValueError no_documents_message)"
    using assms empty
    by (simp add: build_index_def documents_changed_without_directory)
  have "process_all_documents (w\<lparr>documents_dir := Some []\<rparr>) = []"
    by (simp add: process_all_documents_def)
  then have present: "build_index sv True (w\<lparr>documents_dir := Some []\<rparr>) self
      = Inl (ValueError no_documents_message)"
    by (simp add: forced_build_index)
  have created: "documents_dir (DocumentProcessor_init w) = Some []"
    using assms by (simp add: DocumentProcessor_init_def)
  from empty missing present created show ?thesis by blast
qed

theorem missing_directory_raises_no_distinct_error:
  "documents_dir missing_world = None \<and>
   process_all_documents missing_world = [] \<and>
   build_index example_services False missing_world fresh_chatbot
     = Inl (ValueError no_documents_message) \<and>
   build_index example_services True (missing_world\<lparr>documents_dir := Some []\<rparr>) fresh_chatbot
     = Inl (ValueError no_documents_message) \<and>
   documents_dir (DocumentProcessor_init missing_world) = Some []"
  by (simp add: missing_world_def example_world_def process_all_documents_def
      build_index_def documents_changed_def DocumentProcessor_init_def)

theorem missing_directory_is_empty_corpus_witness:
  "process_all_documents missing_world = [] \<and>
   initialize example_services False missing_world fresh_chatbot
     = Inl (ValueError
         ''No documents found to process. Please add legal documents to the 'documents' folder.'')"
proof -
  have h: "documents_dir missing_world = None"
    by (simp add: missing_world_def)
  from missing_directory_is_empty_corpus [OF h, of example_services False fresh_chatbot]
  show ?thesis by (simp add: initialize_def no_documents_message_def)
qed

text \<open>
  Claim C1, amended. A storage directory that fails to load is rebuilt in the same
  call: \<open>load_cached_index\<close> catches the exception, returns \<open>False\<close> and leaves the
  chatbot as it was, and \<open>build_index\<close> without \<open>force_rebuild\<close> then does exactly
  what a forced rebuild does; when it returns, the index is the one built from the
  processed documents. The rebuild is automatic.
\<close>

theorem corrupt_cache_falls_back_to_rebuild:
  assumes "storage_dir w = Some Corrupt"
  shows "load_cached_index w self = (False, self) \<and>
    build_index sv False w self = build_index sv True w self \<and>
    (\<forall>w' self'. build_index sv False w self = Inr (w', self') \<longrightarrow>
       (\<exists>idx. from_documents sv (process_all_documents w) = Inr idx \<and>
              index self' = Some idx))"
proof -
  have load: "load_cached_index w self = (False, self)"
    using assms by (simp add: load_cached_index_def)
  then have same: "build_index sv False w self = build_index sv True w self"
    by (simp add: build_index_def)
  have "\<exists>idx. from_documents sv (process_all_documents w) = Inr idx \<and> index self' = Some idx"
    if "build_index sv True w self = Inr (w', self')" for w' self'
    using that by (auto simp: forced_build_index split: if_splits sum.splits)
  with load same show ?thesis by simp
qed

theorem corrupt_cache_is_rebuilt_silently:
  "index_cache_file example_world = Some 10 \<and>
   storage_dir example_world = Some Corrupt \<and>
   \<not> documents_changed example_world \<and>
   load_cached_index example_world fresh_chatbot = (False, fresh_chatbot) \<and>
   map_sum id snd (build_index example_services False example_world fresh_chatbot)
     = Inr (fresh_chatbot\<lparr>index := Some example_index\<rparr>) \<and>
   map_sum id (storage_dir \<circ> fst)
       (build_index example_services False example_world fresh_chatbot)
     = Inr (Some (Persisted example_index))"
  by code_simp

theorem corrupt_cache_falls_back_to_rebuild_witness:
  "build_index example_services False example_world fresh_chatbot
     = build_index example_services True example_world fresh_chatbot \<and>
   map_sum id (index \<circ> snd) (build_index example_services False example_world fresh_chatbot)
     = Inr (Some example_index)"
proof -
  have h: "storage_dir example_world = Some Corrupt"
    by (simp add: example_world_def)
  have "map_sum id (index \<circ> snd) (build_index example_services True example_world fresh_chatbot)
     = Inr (Some example_index)"
    by code_simp
  with corrupt_cache_falls_back_to_rebuild [OF h, of fresh_chatbot example_services]
  show ?thesis by simp
qed

section \<open>Document information\<close>

text \<open>
  Claim C10. Without an index, \<open>get_document_info\<close> returns the plain string ``Index
  not built yet.''; with an index it returns a list with one record per stored
  document (file name, document type, text length). The shape of the result depends
  on the state.
\<close>

theorem get_document_info_shape:
  "(index self = None \<longrightarrow> get_document_info self = InfoString ''Index not built yet.'') \<and>
   (\<forall>idx. index self = Some idx \<longrightarrow>
      (\<exists>infos. get_document_info self = InfoList infos \<and>
         length infos = length (docstore idx) \<and>
         (\<forall>i < length infos.
            info_filename (infos ! i)
              = dict_get (metadata (snd (docstore idx ! i))) ''filename'' ''Unknown'' \<and>
            info_document_type (infos ! i)
              = dict_get (metadata (snd (docstore idx ! i))) ''document_type'' ''Unknown'' \<and>
            info_text_length (infos ! i) = length (doc_text (snd (docstore idx ! i))))))"
  by (auto simp: get_document_info_def split_beta)

theorem get_document_info_shape_witness:
  "get_document_info fresh_chatbot = InfoString ''Index not built yet.'' \<and>
   (\<exists>infos. get_document_info ready_chatbot = InfoList infos \<and> length infos = 2 \<and>
      info_filename (infos ! 1) = ''ipc.txt'' \<and> info_text_length (infos ! 1) = 11)"
proof -
  have a: "index fresh_chatbot = None"
    by (simp add: fresh_chatbot_def)
  have b: "index ready_chatbot = Some example_index"
    by (simp add: ready_chatbot_def)
  from get_document_info_shape [of ready_chatbot] b obtain infos where
    shape: "get_document_info ready_chatbot = InfoList infos"
    and len: "length infos = length (docstore example_index)"
    and each: "\<forall>i < length infos.
            info_filename (infos ! i)
              = dict_get (metadata (snd (docstore example_index ! i))) ''filename'' ''Unknown'' \<and>
            info_document_type (infos ! i)
              = dict_get (metadata (snd (docstore example_index ! i)))
                  ''document_type'' ''Unknown'' \<and>
            info_text_length (infos ! i) = length (doc_text (snd (docstore example_index ! i)))"
    by blast
  from len have two: "length infos = 2"
    by (simp add: example_index_def)
  then have "1 < length infos"
    by simp
  from each [rule_format, OF this]
  have "info_filename (infos ! 1) = ''ipc.txt''" and "info_text_length (infos ! 1) = 11"
    by (simp_all add: example_index_def dict_get_def)
  with shape two get_document_info_shape [of fresh_chatbot] a show ?thesis
    by blast
qed

section \<open>The query path\<close>

text \<open>
  Claim C8. A query on a chatbot whose query engine is not set up, as it is straight
  after construction, raises a \<open>ValueError\<close> to the caller; and this is the only
  exception \<open>query\<close> lets through: whenever \<open>query\<close> raises, the query engine was not
  set up.
\<close>

theorem query_before_initialize_raises:
  "(query_engine self = None \<longrightarrow>
      query sv self q =
        Inl (ValueError ''Query engine not setup. Call setup_query_engine() first.'')) \<and>
   (\<forall>e. query sv self q = Inl e \<longrightarrow> query_engine self = None)"
  by (auto simp: query_def split: option.splits sum.splits)

theorem query_before_initialize_raises_witness:
  "LegalChatbot_init (Some ''key'') None example_world
     = Inr (example_world, fresh_chatbot) \<and>
   query example_services fresh_chatbot ''What is Article 21?''
     = Inl (ValueError ''Query engine not setup. Call setup_query_engine() first.'') \<and>
   query example_services ready_chatbot ''What is Article 21?''
     = Inr ''Consult a qualified lawyer.''"
proof -
  have none: "query_engine fresh_chatbot = None"
    by (simp add: fresh_chatbot_def)
  have init: "LegalChatbot_init (Some ''key'') None example_world
     = Inr (example_world, fresh_chatbot)"
    by (simp add: LegalChatbot_init_def DocumentProcessor_init_def example_world_def
        fresh_chatbot_def)
  have ready: "query example_services ready_chatbot ''What is Article 21?''
     = Inr ''Consult a qualified lawyer.''"
    by code_simp
  from query_before_initialize_raises [of fresh_chatbot example_services
      "''What is Article 21?''"] none init ready
  show ?thesis by simp
qed








text \<open>
  The handler of \<open>get_web_context\<close> is reached when a URL of the broader search
  cannot be parsed: the download fails, the handler of \<open>extract_text_from_url\<close> calls
  \<open>urlparse\<close> again, and that \<open>ValueError\<close> leaves the scraper. The query still
  returns the completion.
\<close>

lemma web_search_exception_becomes_web_context:
  "google_search_legal malformed_url_services
       (typed_search_query ''latest ruling on bail'') 5 = [''http://[bad''] \<and>
   comprehensive_legal_search malformed_url_services ''latest ruling on bail''
     = Inl (ValueError ''Invalid IPv6 URL'') \<and>
   get_web_context malformed_url_services ''latest ruling on bail''
     = ''Error retrieving web information: Invalid IPv6 URL'' \<and>
   query malformed_url_services ready_chatbot ''latest ruling on bail''
     = Inr ''Consult a qualified lawyer.''"
  by code_simp

section \<open>The web context\<close>

lemma append_results_concat:
  "append_results acc xs = acc @ concat (map (\<lambda>(i, r). format_result i r) xs)"
  by (induction acc xs rule: append_results.induct) simp_all

lemma get_web_context_blocks:
  assumes "comprehensive_legal_search sv q = Inr rs" and "rs \<noteq> []"
  shows "get_web_context sv q =
    web_context_header
      @ concat (map (\<lambda>(i, r). format_result i r) (enumerate 1 (take 2 rs)))"
  using assms by (simp add: get_web_context_def append_results_concat)

text \<open>
  Claim C5. After a successful web search with at least one result, the web context
  is the header followed by one block per result for at most the first two results.
  The block of a result shows its number, title and source and then its content: the
  first 400 characters followed by \<open>...\<close> when the content is longer than 400
  characters (403 characters in all), the content unchanged and without marker when it
  has at most 400 characters.
\<close>

theorem web_context_truncation_and_cap:
  assumes "comprehensive_legal_search sv q = Inr rs" and "rs \<noteq> []"
  shows "\<exists>blocks.
    get_web_context sv q = web_context_header @ concat blocks \<and>
    length blocks = min 2 (length rs) \<and>
    (\<forall>i < length blocks. \<exists>shown.
       blocks ! i =
         str_nat (i + 1) @ ''. '' @ title (rs ! i) @ '' (Source: '' @ source (rs ! i)
           @ '')\<newline>'' @ ''   '' @ shown @ ''\<newline>\<newline>'' \<and>
       (400 < length (content (rs ! i)) \<longrightarrow>
          shown = take 400 (content (rs ! i)) @ ''...'' \<and> length shown = 403) \<and>
       (length (content (rs ! i)) \<le> 400 \<longrightarrow> shown = content (rs ! i)))"
proof -
  define blocks where
    "blocks = map (\<lambda>(i, r). format_result i r) (enumerate 1 (take 2 rs))"
  have ctx: "get_web_context sv q = web_context_header @ concat blocks"
    unfolding blocks_def by (rule get_web_context_blocks [OF assms])
  have len: "length blocks = min 2 (length rs)"
    by (simp add: blocks_def min.commute)
  have each: "\<exists>shown.
       blocks ! i =
         str_nat (i + 1) @ ''. '' @ title (rs ! i) @ '' (Source: '' @ source (rs ! i)
           @ '')\<newline>'' @ ''   '' @ shown @ ''\<newline>\<newline>'' \<and>
       (400 < length (content (rs ! i)) \<longrightarrow>
          shown = take 400 (content (rs ! i)) @ ''...'' \<and> length shown = 403) \<and>
       (length (content (rs ! i)) \<le> 400 \<longrightarrow> shown = content (rs ! i))"
    if "i < length blocks" for i
  proof -
    from that len have i: "i < 2" "i < length rs"
      by simp_all
    then have nth: "blocks ! i = format_result (i + 1) (rs ! i)"
      by (simp add: blocks_def nth_enumerate_eq)
    let ?shown = "take 400 (content (rs ! i))
        @ (if length (content (rs ! i)) > 400 then ''...'' else '''')"
    have "blocks ! i =
         str_nat (i + 1) @ ''. '' @ title (rs ! i) @ '' (Source: '' @ source (rs ! i)
           @ '')\<newline>'' @ ''   '' @ ?shown @ ''\<newline>\<newline>''"
      by (simp add: nth format_result_def)
    moreover have "400 < length (content (rs ! i)) \<longrightarrow>
        ?shown = take 400 (content (rs ! i)) @ ''...'' \<and> length ?shown = 403"
      by simp
    moreover have "length (content (rs ! i)) \<le> 400 \<longrightarrow> ?shown = content (rs ! i)"
      by simp
    ultimately show ?thesis by blast
  qed
  from ctx len each show ?thesis by blast
qed

theorem web_context_truncation_and_cap_witness:
  "\<exists>blocks.
     get_web_context example_services ''latest ruling on bail''
       = web_context_header @ concat blocks \<and>
     length blocks = 2 \<and>
     blocks ! 0 = ''1. Long (Source: livelaw.in)\<newline>   '' @ replicate 400 (CHR ''a'')
                    @ ''...\<newline>\<newline>'' \<and>
     blocks ! 1 = ''2. Short (Source: indiankanoon.org)\<newline>   '' @ replicate 300 (CHR ''b'')
                    @ ''\<newline>\<newline>''"
proof -
  have s: "comprehensive_legal_search example_services ''latest ruling on bail''
      = Inr example_results"
    by code_simp
  have ne: "example_results \<noteq> []"
    by (simp add: example_results_def)
  from web_context_truncation_and_cap [OF s ne] obtain blocks where
    ctx: "get_web_context example_services ''latest ruling on bail''
        = web_context_header @ concat blocks"
    and len: "length blocks = min 2 (length example_results)"
    and each: "\<forall>i < length blocks. \<exists>shown.
       blocks ! i =
         str_nat (i + 1) @ ''. '' @ title (example_results ! i) @ '' (Source: ''
           @ source (example_results ! i) @ '')\<newline>'' @ ''   '' @ shown @ ''\<newline>\<newline>'' \<and>
       (400 < length (content (example_results ! i)) \<longrightarrow>
          shown = take 400 (content (example_results ! i)) @ ''...'' \<and> length shown = 403) \<and>
       (length (content (example_results ! i)) \<le> 400 \<longrightarrow>
          shown = content (example_results ! i))"
    by blast
  from len have two: "length blocks = 2"
    by (simp add: example_results_def)
  from two have l0: "0 < length blocks" and l1: "1 < length blocks"
    by simp_all
  have d1: "str_nat (Suc 0) = ''1''" and d2: "str_nat (Suc (Suc 0)) = ''2''"
    by code_simp+
  from each [rule_format, OF l0] obtain shown0 where
    e0: "blocks ! 0 =
         str_nat (0 + 1) @ ''. '' @ title (example_results ! 0) @ '' (Source: ''
           @ source (example_results ! 0) @ '')\<newline>'' @ ''   '' @ shown0 @ ''\<newline>\<newline>''"
    and t0: "400 < length (content (example_results ! 0)) \<longrightarrow>
          shown0 = take 400 (content (example_results ! 0)) @ ''...'' \<and> length shown0 = 403"
    by blast
  from t0 have "shown0 = replicate 400 (CHR ''a'') @ ''...''"
    by (simp add: example_results_def)
  with e0 have b0: "blocks ! 0 = ''1. Long (Source: livelaw.in)\<newline>   ''
      @ replicate 400 (CHR ''a'') @ ''...\<newline>\<newline>''"
    by (simp add: example_results_def d1)
  from each [rule_format, OF l1] obtain shown1 where
    e1: "blocks ! 1 =
         str_nat (1 + 1) @ ''. '' @ title (example_results ! 1) @ '' (Source: ''
           @ source (example_results ! 1) @ '')\<newline>'' @ ''   '' @ shown1 @ ''\<newline>\<newline>''"
    and t1: "length (content (example_results ! 1)) \<le> 400 \<longrightarrow>
          shown1 = content (example_results ! 1)"
    by blast
  from t1 have "shown1 = replicate 300 (CHR ''b'')"
    by (simp add: example_results_def)
  with e1 have b1: "blocks ! 1 = ''2. Short (Source: indiankanoon.org)\<newline>   ''
      @ replicate 300 (CHR ''b'') @ ''\<newline>\<newline>''"
    by (simp add: example_results_def d2)
  from ctx two b0 b1 show ?thesis by blast
qed

end
